theory Spec2Isabelle
  imports Complex_Main
begin

section \<open>The totals engine (TotalsNewService)\<close>

text \<open>
  A shallow embedding of the pricing computations of \<^verbatim>\<open>TotalsNewService\<close>:
  line-item totals, shipping-method totals, refunds and gift-card totals, each with its
  current (per tax line) and legacy (flat tax rate) variant.

  Conventions of the embedding:
  \<^item> a JavaScript \<^verbatim>\<open>number\<close> is an exact rational (\<^typ>\<open>rat\<close>): amounts are integers in
    minor currency units and rates are percentages, so the arithmetic of the service is
    read as exact arithmetic; \<^verbatim>\<open>NaN\<close> and the infinities are not values of the model;
  \<^item> a value that may be \<^verbatim>\<open>undefined\<close> or \<^verbatim>\<open>null\<close> is an \<open>option\<close>, \<open>None\<close> being the
    absent value;
  \<^item> a thrown \<^verbatim>\<open>MedusaError\<close> is the left summand of the result;
  \<^item> the injected collaborators (feature-flag router, tax calculation strategy, tax
    provider) and the imported helper \<^verbatim>\<open>calculatePriceTaxAmount\<close> are fields of a record of
    dependencies, so that every theorem holds for each implementation of them;
  \<^item> \<^verbatim>\<open>async\<close> functions are modelled by the value they resolve to.
\<close>

subsection \<open>Numbers\<close>

type_synonym number = rat

text \<open>\<^verbatim>\<open>Math.round\<close>: the nearest integer, a tie going up.\<close>

definition Math_round :: "number \<Rightarrow> number" where
  "Math_round x = of_int \<lfloor>x + 1 / 2\<rfloor>"

text \<open>\<^verbatim>\<open>x || 0\<close> on an optional number: the absent value and zero both give zero.\<close>

fun or_zero :: "number option \<Rightarrow> number" where
  "or_zero None = 0"
| "or_zero (Some v) = (if v = 0 then 0 else v)"


subsection \<open>Data model\<close>

record tax_line =
  rate :: number
  line_name :: string

text \<open>
  The fields shared by \<^verbatim>\<open>LineItem\<close> and \<^verbatim>\<open>ShippingMethod\<close>. The field \<open>tax_lines\<close> is
  \<open>None\<close> when the relation was never loaded (\<^verbatim>\<open>undefined\<close>).
\<close>

record taxable_entity =
  entity_id :: string
  includes_tax :: bool
  tax_lines :: "tax_line list option"

record line_item = taxable_entity +
  unit_price :: number
  quantity :: number

record shipping_method = taxable_entity +
  price :: number

datatype DiscountRuleType = FIXED | PERCENTAGE | FREE_SHIPPING

record discount_rule =
  rule_type :: DiscountRuleType

record discount =
  rule :: discount_rule

record line_discount_amount =
  amount :: number
  unit_amount :: number

text \<open>An entry of \<^verbatim>\<open>LineAllocationsMap\<close>; the empty object \<^verbatim>\<open>{}\<close> has no field set.\<close>

record line_allocation =
  gift_card :: "line_discount_amount option"
  discount :: "line_discount_amount option"

definition empty_allocation :: line_allocation where
  "empty_allocation = \<lparr>gift_card = None, discount = None\<rparr>"

record region =
  gift_cards_taxable :: bool
  tax_rate :: number

record calculation_context =
  allocation_map :: "string \<rightharpoonup> line_allocation"
  shipping_methods :: "shipping_method list"
  context_region :: "region option"


record gift_card_transaction =
  tx_tax_rate :: "number option"
  is_taxable :: "bool option"
  tx_amount :: number

text \<open>
  The output records. \<^verbatim>\<open>LineItemTotals\<close> and \<^verbatim>\<open>ShippingMethodTotals\<close> share their money
  fields; the fields that echo the entity are prefixed with \<open>totals_\<close>.
\<close>

record totals =
  subtotal :: number
  tax_total :: number
  total :: number
  original_total :: number
  original_tax_total :: number
  totals_tax_lines :: "tax_line list option"

record line_item_totals = totals +
  totals_unit_price :: number
  totals_quantity :: number
  discount_total :: number

record shipping_method_totals = totals +
  totals_price :: number


subsection \<open>Errors\<close>

datatype MedusaErrorType = UNEXPECTED_STATE

datatype MedusaError = MedusaError MedusaErrorType string

definition tax_lines_not_joined :: MedusaError where
  "tax_lines_not_joined =
     MedusaError UNEXPECTED_STATE ''Tax Lines must be joined to calculate taxes''"

definition refund_tax_lines_missing :: MedusaError where
  "refund_tax_lines_missing =
     MedusaError UNEXPECTED_STATE
       ''Cannot compute line item refund amount, tax lines are missing from the line item''"

subsection \<open>Dependencies\<close>

record tax_lines_maps =
  lineItemsTaxLines :: "string \<rightharpoonup> tax_line list"
  shippingMethodsTaxLines :: "string \<rightharpoonup> tax_line list"

text \<open>
  \<open>tax_inclusive_pricing\<close> is the value of
  \<^verbatim>\<open>featureFlagRouter_.isFeatureEnabled(TaxInclusivePricingFeatureFlag.key)\<close>;
  \<open>calculate\<close> is \<^verbatim>\<open>taxCalculationStrategy_.calculate\<close>;
  \<open>getTaxLinesMap\<close> is \<^verbatim>\<open>taxProviderService_.getTaxLinesMap\<close>;
  \<open>calculatePriceTaxAmount\<close> is the helper imported from \<^verbatim>\<open>../utils\<close>, with the arguments
  \<^verbatim>\<open>price\<close>, \<^verbatim>\<open>taxRate\<close> and \<^verbatim>\<open>includesTax\<close> in this order.
\<close>

record dependencies =
  tax_inclusive_pricing :: bool
  calculate :: "line_item list \<Rightarrow> tax_line list \<Rightarrow> calculation_context \<Rightarrow> number"
  getTaxLinesMap :: "line_item list \<Rightarrow> calculation_context \<Rightarrow> tax_lines_maps"
  calculatePriceTaxAmount :: "number \<Rightarrow> number \<Rightarrow> bool \<Rightarrow> number"

subsection \<open>Line-item totals\<close>

text \<open>
  The options object of the current-path methods. \<open>includeTax\<close> is \<open>False\<close> when the
  caller leaves it out (\<^verbatim>\<open>undefined\<close> is falsy).
\<close>

record calculation_options =
  includeTax :: bool
  taxLines :: "tax_line list option"
  calculationContext :: calculation_context

record line_item_options = calculation_options +
  lineItemAllocation :: line_allocation

text \<open>\<^verbatim>\<open>(lineItemAllocation.discount?.unit_amount || 0) * item.quantity\<close>\<close>

definition allocation_discount_total :: "line_allocation \<Rightarrow> line_item \<Rightarrow> number" where
  "allocation_discount_total alloc item =
     or_zero (map_option unit_amount (discount alloc)) * quantity item"

text \<open>\<^verbatim>\<open>taxLines ?? item.tax_lines ?? []\<close>\<close>

definition effective_tax_lines :: "tax_line list option \<Rightarrow> tax_line list option \<Rightarrow> tax_line list" where
  "effective_tax_lines override own =
     (case override of
        Some ls \<Rightarrow> ls
      | None \<Rightarrow> (case own of Some ls \<Rightarrow> ls | None \<Rightarrow> []))"

definition getLineItemTotals ::
  "dependencies \<Rightarrow> line_item \<Rightarrow> line_item_options \<Rightarrow> MedusaError + line_item_totals" where
  "getLineItemTotals deps item opts =
     (let subtotal0 = (if tax_inclusive_pricing deps \<and> includes_tax item then 0
                       else unit_price item * quantity item);
          discount_total0 = allocation_discount_total (lineItemAllocation opts) item;
          lines = effective_tax_lines (taxLines opts) (tax_lines item);
          totals0 = \<lparr>subtotal = subtotal0,
                     tax_total = 0,
                     total = subtotal0 - discount_total0,
                     original_total = subtotal0,
                     original_tax_total = 0,
                     totals_tax_lines = Some lines,
                     totals_unit_price = unit_price item,
                     totals_quantity = quantity item,
                     discount_total = discount_total0\<rparr>
      in if includeTax opts \<and> length lines = 0 then Inl tax_lines_not_joined
         else if length lines > 0 then
           (let totals1 = totals0\<lparr>tax_total :=
                    calculate deps [item] lines (calculationContext opts)\<rparr>;
                noDiscountContext = (calculationContext opts)\<lparr>allocation_map := Map.empty\<rparr>;
                totals2 = totals1\<lparr>original_tax_total :=
                    calculate deps [item] lines noDiscountContext\<rparr>;
                totals5 =
                  (if tax_inclusive_pricing deps \<and> includes_tax item then
                     (let totals3 = totals2\<lparr>subtotal := subtotal totals2 +
                              (totals_unit_price totals2 * totals_quantity totals2
                                 - original_tax_total totals2)\<rparr>;
                          totals4 = totals3\<lparr>total := total totals3 + subtotal totals3\<rparr>
                      in totals4\<lparr>original_total := original_total totals4 + subtotal totals4\<rparr>)
                   else totals2);
                totals6 = totals5\<lparr>total := total totals5 + tax_total totals5\<rparr>
            in Inr (totals6\<lparr>original_total :=
                    original_total totals6 + original_tax_total totals6\<rparr>))
         else Inr totals0)"

record line_item_legacy_options =
  legacy_taxRate :: number
  legacy_lineItemAllocation :: line_allocation
  legacy_calculationContext :: calculation_context

definition getLineItemTotalsLegacy ::
  "dependencies \<Rightarrow> line_item \<Rightarrow> line_item_legacy_options \<Rightarrow> line_item_totals" where
  "getLineItemTotalsLegacy deps item opts =
     (let subtotal0 = (if tax_inclusive_pricing deps \<and> includes_tax item then 0
                       else unit_price item * quantity item);
          discount_total0 = allocation_discount_total (legacy_lineItemAllocation opts) item;
          totals0 = \<lparr>subtotal = subtotal0,
                     tax_total = 0,
                     total = subtotal0 - discount_total0,
                     original_total = subtotal0,
                     original_tax_total = 0,
                     totals_tax_lines = tax_lines item,
                     totals_unit_price = unit_price item,
                     totals_quantity = quantity item,
                     discount_total = discount_total0\<rparr>;
          taxRate = legacy_taxRate opts / 100;
          includesTax = (tax_inclusive_pricing deps \<and> includes_tax item);
          taxIncludedInPrice =
            (if \<not> includes_tax item then 0
             else Math_round (calculatePriceTaxAmount deps (unit_price item) taxRate includesTax));
          totals1 = totals0\<lparr>subtotal := (unit_price item - taxIncludedInPrice) * quantity item\<rparr>;
          totals2 = totals1\<lparr>total := subtotal totals1\<rparr>;
          totals3 = totals2\<lparr>original_tax_total := subtotal totals2 * taxRate\<rparr>;
          totals4 = totals3\<lparr>tax_total := (subtotal totals3 - discount_total0) * taxRate\<rparr>;
          totals5 = totals4\<lparr>total := total totals4 + tax_total totals4\<rparr>
      in totals5\<lparr>original_total := original_total totals5 + original_tax_total totals5\<rparr>)"

subsection \<open>Line-item refund\<close>

text \<open>
  \<^verbatim>\<open>(calculationContext.allocation_map[lineItem.id]?.discount?.unit_amount || 0)
      * lineItem.quantity\<close>
\<close>

definition refund_discount_amount :: "calculation_context \<Rightarrow> line_item \<Rightarrow> number" where
  "refund_discount_amount ctx lineItem =
     or_zero (case allocation_map ctx (entity_id lineItem) of
                None \<Rightarrow> None
              | Some alloc \<Rightarrow> map_option unit_amount (discount alloc))
       * quantity lineItem"

definition getLineItemRefundLegacy ::
  "dependencies \<Rightarrow> line_item \<Rightarrow> calculation_context \<Rightarrow> number \<Rightarrow> number" where
  "getLineItemRefundLegacy deps lineItem ctx taxRate =
     (let includesTax = (tax_inclusive_pricing deps \<and> includes_tax lineItem);
          taxAmountIncludedInPrice =
            (if \<not> includesTax then 0
             else Math_round
                    (calculatePriceTaxAmount deps (unit_price lineItem) (taxRate / 100) includesTax));
          discountAmount = refund_discount_amount ctx lineItem;
          lineSubtotal =
            (unit_price lineItem - taxAmountIncludedInPrice) * quantity lineItem - discountAmount
      in Math_round (lineSubtotal * (1 + taxRate / 100)))"

text \<open>
  The two \<^verbatim>\<open>reduce\<close> calls are left folds from 0. The argument \<open>taxRate\<close> is \<open>None\<close> when
  the caller passes \<^verbatim>\<open>null\<close> or nothing; the test is \<^verbatim>\<open>taxRate != null\<close>.
\<close>

definition getLineItemRefund ::
  "dependencies \<Rightarrow> line_item \<Rightarrow> calculation_context \<Rightarrow> number option \<Rightarrow> MedusaError + number" where
  "getLineItemRefund deps lineItem ctx taxRate =
     (case taxRate of
        Some r \<Rightarrow> Inr (getLineItemRefundLegacy deps lineItem ctx r)
      | None \<Rightarrow>
          (let includesTax = (tax_inclusive_pricing deps \<and> includes_tax lineItem);
               discountAmount = refund_discount_amount ctx lineItem
           in case tax_lines lineItem of
                None \<Rightarrow> Inl refund_tax_lines_missing
              | Some lines \<Rightarrow>
                  (let totalTaxRate = foldl (\<lambda>acc next. acc + rate next / 100) 0 lines;
                       taxAmountIncludedInPrice =
                         (if \<not> includesTax then 0
                          else Math_round
                                 (calculatePriceTaxAmount deps (unit_price lineItem)
                                    totalTaxRate includesTax));
                       lineSubtotal =
                         (unit_price lineItem - taxAmountIncludedInPrice) * quantity lineItem
                           - discountAmount;
                       taxTotal =
                         foldl (\<lambda>acc next. acc + Math_round (lineSubtotal * (rate next / 100)))
                           0 lines
                   in Inr (lineSubtotal + taxTotal))))"

subsection \<open>Gift-card totals\<close>

text \<open>\<^verbatim>\<open>region?.gift_cards_taxable\<close>\<close>

definition region_gift_cards_taxable :: "region option \<Rightarrow> bool" where
  "region_gift_cards_taxable r = (case r of None \<Rightarrow> False | Some reg \<Rightarrow> gift_cards_taxable reg)"




subsection \<open>Shipping-method totals\<close>

record shipping_method_options = calculation_options +
  discounts :: "discount list option"

text \<open>\<^verbatim>\<open>discounts?.some((d) => d.rule.type === DiscountRuleType.FREE_SHIPPING)\<close>\<close>

definition hasFreeShipping :: "discount list option \<Rightarrow> bool" where
  "hasFreeShipping ds =
     (case ds of
        None \<Rightarrow> False
      | Some l \<Rightarrow> list_ex (\<lambda>d. rule_type (rule d) = FREE_SHIPPING) l)"

definition getShippingMethodTotals ::
  "dependencies \<Rightarrow> shipping_method \<Rightarrow> shipping_method_options
     \<Rightarrow> MedusaError + shipping_method_totals" where
  "getShippingMethodTotals deps shippingMethod opts =
     (let lines = effective_tax_lines (taxLines opts) (tax_lines shippingMethod);
          totals0 = \<lparr>subtotal = price shippingMethod,
                     tax_total = 0,
                     total = price shippingMethod,
                     original_total = price shippingMethod,
                     original_tax_total = 0,
                     totals_tax_lines = Some lines,
                     totals_price = price shippingMethod\<rparr>;
          calculationContext' = (calculationContext opts)\<lparr>shipping_methods := [shippingMethod]\<rparr>
      in if includeTax opts \<and> length lines = 0 then Inl tax_lines_not_joined
         else
           (let includesTax = (tax_inclusive_pricing deps \<and> includes_tax shippingMethod);
                totals1 = totals0\<lparr>original_tax_total :=
                    calculate deps [] lines calculationContext'\<rparr>;
                totals2 = totals1\<lparr>tax_total := original_tax_total totals1\<rparr>;
                totals4 =
                  (if includesTax then
                     totals2\<lparr>subtotal := subtotal totals2 - tax_total totals2\<rparr>
                   else
                     (let totals3 = totals2\<lparr>original_total :=
                              original_total totals2 + original_tax_total totals2\<rparr>
                      in totals3\<lparr>total := total totals3 + tax_total totals3\<rparr>))
            in if hasFreeShipping (discounts opts) then
                 Inr (totals4\<lparr>total := 0, subtotal := 0, tax_total := 0\<rparr>)
               else Inr totals4))"

text \<open>
  The legacy method reads \<^verbatim>\<open>taxRate\<close> from its options object. Its declared type is
  \<^verbatim>\<open>number\<close>, but the batch method below calls it with an object that has no such
  property, so the value is \<open>None\<close> there. Then \<^verbatim>\<open>taxRate / 100\<close> is \<^verbatim>\<open>NaN\<close> and both tax
  fields of the record are \<^verbatim>\<open>NaN\<close>: the model, whose numbers are rationals, returns \<open>None\<close>
  for that record.
\<close>

record shipping_method_legacy_options =
  legacy_sm_calculationContext :: calculation_context
  legacy_sm_discounts :: "discount list option"
  legacy_sm_taxRate :: "number option"

definition getShippingMethodTotalsLegacy ::
  "shipping_method \<Rightarrow> shipping_method_legacy_options \<Rightarrow> shipping_method_totals option" where
  "getShippingMethodTotalsLegacy shippingMethod opts =
     (let totals0 = \<lparr>subtotal = price shippingMethod,
                     tax_total = 0,
                     total = price shippingMethod,
                     original_total = price shippingMethod,
                     original_tax_total = 0,
                     totals_tax_lines = tax_lines shippingMethod,
                     totals_price = price shippingMethod\<rparr>
      in case legacy_sm_taxRate opts of
           None \<Rightarrow> None
         | Some taxRate \<Rightarrow>
             (let totals1 = totals0\<lparr>original_tax_total :=
                      Math_round (totals_price totals0 * (taxRate / 100))\<rparr>
              in Some (totals1\<lparr>tax_total :=
                      Math_round (totals_price totals1 * (taxRate / 100))\<rparr>)))"

subsection \<open>Batch entry points\<close>



record batch_options =
  batch_includeTax :: bool
  batch_calculationContext :: calculation_context
  batch_taxRate :: "number option"
  useExistingTaxLines :: bool





text \<open>
  \<^verbatim>\<open>getShippingMethodsTotals\<close>. The provider is asked with an empty item list. The options
  object of each call holds \<^verbatim>\<open>includeTax\<close>, \<^verbatim>\<open>calculationContext\<close>, \<^verbatim>\<open>taxLines\<close> and
  \<^verbatim>\<open>discounts\<close>, and no \<^verbatim>\<open>taxRate\<close>. An entry \<open>None\<close> of the result is a record whose tax
  fields are \<^verbatim>\<open>NaN\<close>.
\<close>

record shipping_batch_options = batch_options +
  batch_discounts :: "discount list option"




subsection \<open>Concrete dependencies and inputs\<close>

text \<open>
  One implementation of each dependency, used where a statement is evaluated at a
  concrete input: the helper backs the tax out of a tax-inclusive price and multiplies
  otherwise; the strategy applies the summed rates to the discounted item amounts (to the
  shipping prices of the context when there is no item) and rounds; the provider knows no
  tax line.
\<close>

definition ex_calculatePriceTaxAmount :: "number \<Rightarrow> number \<Rightarrow> bool \<Rightarrow> number" where
  "ex_calculatePriceTaxAmount p taxRate includesTax =
     (if includesTax then (taxRate * p) / (1 + taxRate) else p * taxRate)"

definition ex_calculate :: "line_item list \<Rightarrow> tax_line list \<Rightarrow> calculation_context \<Rightarrow> number" where
  "ex_calculate items lines ctx =
     Math_round
       ((sum_list (map (\<lambda>i. unit_price i * quantity i - refund_discount_amount ctx i) items)
          + (if length items = 0 then sum_list (map price (shipping_methods ctx)) else 0))
        * sum_list (map (\<lambda>l. rate l / 100) lines))"

definition ex_getTaxLinesMap :: "line_item list \<Rightarrow> calculation_context \<Rightarrow> tax_lines_maps" where
  "ex_getTaxLinesMap items ctx =
     \<lparr>lineItemsTaxLines = Map.empty, shippingMethodsTaxLines = Map.empty\<rparr>"

definition ex_deps :: "bool \<Rightarrow> dependencies" where
  "ex_deps flag =
     \<lparr>tax_inclusive_pricing = flag,
      calculate = ex_calculate,
      getTaxLinesMap = ex_getTaxLinesMap,
      calculatePriceTaxAmount = ex_calculatePriceTaxAmount\<rparr>"

definition ex_context :: calculation_context where
  "ex_context = \<lparr>allocation_map = Map.empty, shipping_methods = [], context_region = None\<rparr>"

definition ex_tax_line :: "number \<Rightarrow> tax_line" where
  "ex_tax_line r = \<lparr>rate = r, line_name = ''vat''\<rparr>"

definition ex_item :: "bool \<Rightarrow> tax_line list option \<Rightarrow> line_item" where
  "ex_item inc ls =
     \<lparr>entity_id = ''item_1'', includes_tax = inc, tax_lines = ls,
      unit_price = 1100, quantity = 2\<rparr>"

definition ex_shipping_method :: "bool \<Rightarrow> tax_line list option \<Rightarrow> shipping_method" where
  "ex_shipping_method inc ls =
     \<lparr>entity_id = ''sm_1'', includes_tax = inc, tax_lines = ls, price = 1000\<rparr>"

definition ex_line_item_options :: "bool \<Rightarrow> line_item_options" where
  "ex_line_item_options inc =
     \<lparr>includeTax = inc, taxLines = None, calculationContext = ex_context,
      lineItemAllocation = empty_allocation\<rparr>"

definition ex_shipping_method_options ::
  "bool \<Rightarrow> discount list option \<Rightarrow> shipping_method_options" where
  "ex_shipping_method_options inc ds =
     \<lparr>includeTax = inc, taxLines = None, calculationContext = ex_context, discounts = ds\<rparr>"

definition ex_small_item :: "tax_line list option \<Rightarrow> line_item" where
  "ex_small_item ls =
     \<lparr>entity_id = ''item_2'', includes_tax = False, tax_lines = ls,
      unit_price = 10, quantity = 1\<rparr>"

definition ex_small_shipping_method :: shipping_method where
  "ex_small_shipping_method =
     \<lparr>entity_id = ''sm_2'', includes_tax = False, tax_lines = None, price = 10\<rparr>"

definition ex_free_shipping :: discount where
  "ex_free_shipping = \<lparr>rule = \<lparr>rule_type = FREE_SHIPPING\<rparr>\<rparr>"

definition ex_legacy_options :: "number \<Rightarrow> line_item_legacy_options" where
  "ex_legacy_options r =
     \<lparr>legacy_taxRate = r, legacy_lineItemAllocation = empty_allocation,
      legacy_calculationContext = ex_context\<rparr>"

definition ex_shipping_legacy_options :: "number option \<Rightarrow> shipping_method_legacy_options" where
  "ex_shipping_legacy_options r =
     \<lparr>legacy_sm_calculationContext = ex_context, legacy_sm_discounts = None,
      legacy_sm_taxRate = r\<rparr>"

definition ex_batch_options :: "number option \<Rightarrow> batch_options" where
  "ex_batch_options r =
     \<lparr>batch_includeTax = True, batch_calculationContext = ex_context, batch_taxRate = r,
      useExistingTaxLines = True\<rparr>"

definition ex_shipping_batch_options :: "number option \<Rightarrow> shipping_batch_options" where
  "ex_shipping_batch_options r =
     \<lparr>batch_includeTax = True, batch_calculationContext = ex_context, batch_taxRate = r,
      useExistingTaxLines = True, batch_discounts = None\<rparr>"

definition ex_region :: region where
  "ex_region = \<lparr>gift_cards_taxable = True, tax_rate = 10\<rparr>"

definition ex_transaction :: "number option \<Rightarrow> bool option \<Rightarrow> gift_card_transaction" where
  "ex_transaction r t = \<lparr>tx_tax_rate = r, is_taxable = t, tx_amount = 1000\<rparr>"

subsection \<open>The specification's wording\<close>

text \<open>
  The round trip of the discount-free baseline, as a predicate on a totals record of
  either kind.
\<close>

definition round_trip :: "'z totals_scheme \<Rightarrow> bool" where
  "round_trip t = (original_total t = subtotal t + original_tax_total t)"


section \<open>Properties\<close>

subsection \<open>Auxiliary facts\<close>


text \<open>Evaluation of \<open>Math_round\<close> at a fraction of numerals.\<close>

lemma floor_divide_numeral_rat:
  "\<lfloor>(numeral a :: rat) / numeral b\<rfloor> = numeral a div numeral b"
  using floor_divide_of_int_eq [of "numeral a" "numeral b", where ?'a = rat] by simp

lemma floor_one_divide_numeral_rat:
  "\<lfloor>(1 :: rat) / numeral b\<rfloor> = 1 div numeral b"
  using floor_divide_of_int_eq [of 1 "numeral b", where ?'a = rat] by simp

lemmas ex_defs = ex_calculatePriceTaxAmount_def ex_calculate_def ex_getTaxLinesMap_def
  ex_deps_def ex_context_def ex_tax_line_def ex_item_def ex_shipping_method_def
  ex_line_item_options_def ex_shipping_method_options_def ex_free_shipping_def
  empty_allocation_def ex_small_item_def ex_small_shipping_method_def ex_legacy_options_def
  ex_shipping_legacy_options_def ex_batch_options_def ex_shipping_batch_options_def
  ex_region_def ex_transaction_def

lemmas eval_simps = Math_round_def floor_divide_numeral_rat floor_one_divide_numeral_rat
  effective_tax_lines_def
  hasFreeShipping_def allocation_discount_total_def refund_discount_amount_def
  region_gift_cards_taxable_def Let_def

text \<open>When the current-path methods return a record.\<close>

lemma getLineItemTotals_returns:
  "\<not> (includeTax opts \<and> effective_tax_lines (taxLines opts) (tax_lines item) = []) \<Longrightarrow>
     \<exists>t. getLineItemTotals deps item opts = Inr t"
  by (auto simp: getLineItemTotals_def Let_def)

lemma getShippingMethodTotals_returns:
  "\<not> (includeTax opts \<and> effective_tax_lines (taxLines opts) (tax_lines sm) = []) \<Longrightarrow>
     \<exists>t. getShippingMethodTotals deps sm opts = Inr t"
  by (auto simp: getShippingMethodTotals_def Let_def)

text \<open>The shipping method of the examples, shipped free of charge.\<close>

lemma free_shipping_example:
  "getShippingMethodTotals (ex_deps False) (ex_shipping_method False (Some [ex_tax_line 10]))
     (ex_shipping_method_options True (Some [ex_free_shipping]))
   = Inr \<lparr>subtotal = 0, tax_total = 0, total = 0, original_total = 1100,
       original_tax_total = 100, totals_tax_lines = Some [ex_tax_line 10],
       totals_price = 1000\<rparr>"
  by (simp add: getShippingMethodTotals_def ex_defs eval_simps)

subsection \<open>The round trip of the baseline\<close>

lemma getLineItemTotals_round_trip:
  "getLineItemTotals deps item opts = Inr t \<Longrightarrow> round_trip t"
  by (auto simp: getLineItemTotals_def round_trip_def Let_def split: if_splits)

lemma getShippingMethodTotals_round_trip:
  "getShippingMethodTotals deps sm opts = Inr t \<Longrightarrow> \<not> hasFreeShipping (discounts opts) \<Longrightarrow>
     round_trip t"
  by (auto simp: getShippingMethodTotals_def round_trip_def Let_def split: if_splits)

lemma getLineItemTotalsLegacy_round_trip:
  "\<not> includes_tax item \<Longrightarrow> round_trip (getLineItemTotalsLegacy deps item opts)"
  by (simp add: getLineItemTotalsLegacy_def round_trip_def Let_def)

text \<open>
  Claim C1, as amended. A totals record satisfies
  \<open>original_total = subtotal + original_tax_total\<close>
  \<^item> for every line item on the current path,
  \<^item> for every shipping method on the current path when no supplied discount has the rule
    type \<open>FREE_SHIPPING\<close>,
  \<^item> for every line item on the legacy path whose \<open>includes_tax\<close> is false,

  whatever the tax rate, the tax lines and the discount allocation are; the current-path
  methods return a record unless \<open>includeTax\<close> is set while there is no tax line.
  The claim as stated, for both paths and regardless of discounts and of the tax-inclusive
  flag, does not hold: see the counterexample below.
\<close>

theorem baseline_round_trip:
  "(\<not> (includeTax opts \<and> effective_tax_lines (taxLines opts) (tax_lines item) = [])
      \<longrightarrow> (\<exists>t. getLineItemTotals deps item opts = Inr t \<and> round_trip t))
   \<and> (\<not> (includeTax sopts \<and> effective_tax_lines (taxLines sopts) (tax_lines sm) = [])
        \<and> \<not> hasFreeShipping (discounts sopts)
      \<longrightarrow> (\<exists>t. getShippingMethodTotals deps sm sopts = Inr t \<and> round_trip t))
   \<and> (\<not> includes_tax litem \<longrightarrow> round_trip (getLineItemTotalsLegacy deps litem lopts))"
  using getLineItemTotals_round_trip getLineItemTotals_returns
    getShippingMethodTotals_returns getShippingMethodTotals_round_trip
    getLineItemTotalsLegacy_round_trip
  by meson

theorem baseline_round_trip_witness:
  "\<not> (includeTax (ex_line_item_options True)
        \<and> effective_tax_lines (taxLines (ex_line_item_options True))
            (tax_lines (ex_item True (Some [ex_tax_line 10]))) = [])
   \<and> getLineItemTotals (ex_deps True) (ex_item True (Some [ex_tax_line 10]))
        (ex_line_item_options True)
      = Inr \<lparr>subtotal = 1980, tax_total = 220, total = 2200, original_total = 2200,
          original_tax_total = 220, totals_tax_lines = Some [ex_tax_line 10],
          totals_unit_price = 1100, totals_quantity = 2, discount_total = 0\<rparr>
   \<and> \<not> (includeTax (ex_shipping_method_options True None)
        \<and> effective_tax_lines (taxLines (ex_shipping_method_options True None))
            (tax_lines (ex_shipping_method True (Some [ex_tax_line 10]))) = [])
   \<and> \<not> hasFreeShipping (discounts (ex_shipping_method_options True None))
   \<and> getShippingMethodTotals (ex_deps True) (ex_shipping_method True (Some [ex_tax_line 10]))
        (ex_shipping_method_options True None)
      = Inr \<lparr>subtotal = 900, tax_total = 100, total = 1000, original_total = 1000,
          original_tax_total = 100, totals_tax_lines = Some [ex_tax_line 10],
          totals_price = 1000\<rparr>
   \<and> \<not> includes_tax (ex_item False None)
   \<and> round_trip (getLineItemTotalsLegacy (ex_deps True) (ex_item False None)
        (ex_legacy_options 10))"
proof -
  have h1: "\<not> (includeTax (ex_line_item_options True)
        \<and> effective_tax_lines (taxLines (ex_line_item_options True))
            (tax_lines (ex_item True (Some [ex_tax_line 10]))) = [])"
    by (simp add: ex_defs eval_simps)
  have h2: "\<not> (includeTax (ex_shipping_method_options True None)
        \<and> effective_tax_lines (taxLines (ex_shipping_method_options True None))
            (tax_lines (ex_shipping_method True (Some [ex_tax_line 10]))) = [])"
    by (simp add: ex_defs eval_simps)
  have h3: "\<not> hasFreeShipping (discounts (ex_shipping_method_options True None))"
    by (simp add: ex_defs eval_simps)
  have h4: "\<not> includes_tax (ex_item False None)"
    by (simp add: ex_defs)
  have e1: "getLineItemTotals (ex_deps True) (ex_item True (Some [ex_tax_line 10]))
        (ex_line_item_options True)
      = Inr \<lparr>subtotal = 1980, tax_total = 220, total = 2200, original_total = 2200,
          original_tax_total = 220, totals_tax_lines = Some [ex_tax_line 10],
          totals_unit_price = 1100, totals_quantity = 2, discount_total = 0\<rparr>"
    by (simp add: getLineItemTotals_def ex_defs eval_simps)
  have e2: "getShippingMethodTotals (ex_deps True)
        (ex_shipping_method True (Some [ex_tax_line 10])) (ex_shipping_method_options True None)
      = Inr \<lparr>subtotal = 900, tax_total = 100, total = 1000, original_total = 1000,
          original_tax_total = 100, totals_tax_lines = Some [ex_tax_line 10],
          totals_price = 1000\<rparr>"
    by (simp add: getShippingMethodTotals_def ex_defs eval_simps)
  from baseline_round_trip [of "ex_line_item_options True"
      "ex_item True (Some [ex_tax_line 10])" "ex_deps True"
      "ex_shipping_method_options True None" "ex_shipping_method True (Some [ex_tax_line 10])"
      "ex_item False None" "ex_legacy_options 10"] h4
  have "round_trip (getLineItemTotalsLegacy (ex_deps True) (ex_item False None)
        (ex_legacy_options 10))"
    by blast
  with h1 h2 h3 h4 e1 e2 show ?thesis by blast
qed

text \<open>
  The claim fails on the legacy shipping path (the tax is never added to
  \<open>original_total\<close>), on the current shipping path under a \<open>FREE_SHIPPING\<close> discount (the
  subtotal is zeroed, the original fields are kept) and on the legacy line-item path for a
  tax-inclusive item (\<open>original_total\<close> starts from the provisional subtotal).
\<close>

theorem baseline_round_trip_counterexample:
  "getShippingMethodTotalsLegacy (ex_shipping_method False None)
       (ex_shipping_legacy_options (Some 10))
     = Some \<lparr>subtotal = 1000, tax_total = 100, total = 1000, original_total = 1000,
          original_tax_total = 100, totals_tax_lines = None, totals_price = 1000\<rparr>
   \<and> \<not> round_trip (the (getShippingMethodTotalsLegacy (ex_shipping_method False None)
       (ex_shipping_legacy_options (Some 10))))
   \<and> getShippingMethodTotals (ex_deps False) (ex_shipping_method False (Some [ex_tax_line 10]))
        (ex_shipping_method_options True (Some [ex_free_shipping]))
      = Inr \<lparr>subtotal = 0, tax_total = 0, total = 0, original_total = 1100,
          original_tax_total = 100, totals_tax_lines = Some [ex_tax_line 10],
          totals_price = 1000\<rparr>
   \<and> \<not> round_trip (projr (getShippingMethodTotals (ex_deps False)
        (ex_shipping_method False (Some [ex_tax_line 10]))
        (ex_shipping_method_options True (Some [ex_free_shipping]))))
   \<and> getLineItemTotalsLegacy (ex_deps True) (ex_item True None) (ex_legacy_options 10)
      = \<lparr>subtotal = 2000, tax_total = 200, total = 2200, original_total = 200,
          original_tax_total = 200, totals_tax_lines = None, totals_unit_price = 1100,
          totals_quantity = 2, discount_total = 0\<rparr>
   \<and> \<not> round_trip (getLineItemTotalsLegacy (ex_deps True) (ex_item True None)
        (ex_legacy_options 10))"
proof -
  have a: "getShippingMethodTotalsLegacy (ex_shipping_method False None)
       (ex_shipping_legacy_options (Some 10))
     = Some \<lparr>subtotal = 1000, tax_total = 100, total = 1000, original_total = 1000,
          original_tax_total = 100, totals_tax_lines = None, totals_price = 1000\<rparr>"
    by (simp add: getShippingMethodTotalsLegacy_def ex_defs eval_simps)
  have c: "getLineItemTotalsLegacy (ex_deps True) (ex_item True None) (ex_legacy_options 10)
      = \<lparr>subtotal = 2000, tax_total = 200, total = 2200, original_total = 200,
          original_tax_total = 200, totals_tax_lines = None, totals_unit_price = 1100,
          totals_quantity = 2, discount_total = 0\<rparr>"
    by (simp add: getLineItemTotalsLegacy_def ex_defs eval_simps)
  show ?thesis
    by (simp add: a free_shipping_example c round_trip_def)
qed

subsection \<open>Errors of the current path\<close>

text \<open>
  Claim C2. For a line item, and in the same way for a shipping method, the current-path
  computation called with \<open>includeTax\<close> set while the effective tax-line list (the
  supplied override, else the entity's own tax lines, else the empty list) is empty ends
  with the error "Tax Lines must be joined to calculate taxes"; the result is the error,
  so no totals record is returned.
\<close>

theorem include_tax_without_tax_lines_raises:
  "(includeTax opts \<and> effective_tax_lines (taxLines opts) (tax_lines item) = []
      \<longrightarrow> getLineItemTotals deps item opts = Inl tax_lines_not_joined)
   \<and> (includeTax sopts \<and> effective_tax_lines (taxLines sopts) (tax_lines sm) = []
      \<longrightarrow> getShippingMethodTotals deps sm sopts = Inl tax_lines_not_joined)"
  by (simp add: getLineItemTotals_def getShippingMethodTotals_def Let_def)

theorem include_tax_without_tax_lines_raises_witness:
  "includeTax (ex_line_item_options True)
   \<and> effective_tax_lines (taxLines (ex_line_item_options True)) (tax_lines (ex_item False None)) = []
   \<and> getLineItemTotals (ex_deps False) (ex_item False None) (ex_line_item_options True)
       = Inl tax_lines_not_joined
   \<and> includeTax (ex_shipping_method_options True None)
   \<and> effective_tax_lines (taxLines (ex_shipping_method_options True None))
        (tax_lines (ex_shipping_method False (Some []))) = []
   \<and> getShippingMethodTotals (ex_deps False) (ex_shipping_method False (Some []))
        (ex_shipping_method_options True None) = Inl tax_lines_not_joined"
  using include_tax_without_tax_lines_raises
    [of "ex_line_item_options True" "ex_item False None" "ex_deps False"
      "ex_shipping_method_options True None" "ex_shipping_method False (Some [])"]
  by (simp add: ex_line_item_options_def ex_item_def ex_shipping_method_options_def
      ex_shipping_method_def effective_tax_lines_def)

subsection \<open>Free shipping\<close>

text \<open>
  Claim C3. For a shipping method computed on the current path, if a discount of the
  supplied discount set has the rule type \<open>FREE_SHIPPING\<close>, then the returned record has
  \<open>total\<close>, \<open>subtotal\<close> and \<open>tax_total\<close> equal to zero, whatever the price, the tax lines
  and the tax-inclusive flag are; and a record is returned unless \<open>includeTax\<close> is set
  while there is no tax line.
\<close>

theorem free_shipping_zeroes_totals:
  assumes "discounts opts = Some ds" and "d \<in> set ds" and "rule_type (rule d) = FREE_SHIPPING"
  shows "(\<forall>t. getShippingMethodTotals deps sm opts = Inr t
            \<longrightarrow> total t = 0 \<and> subtotal t = 0 \<and> tax_total t = 0)
         \<and> (\<not> (includeTax opts \<and> effective_tax_lines (taxLines opts) (tax_lines sm) = [])
            \<longrightarrow> (\<exists>t. getShippingMethodTotals deps sm opts = Inr t))"
proof -
  from assms have free: "hasFreeShipping (discounts opts)"
    by (auto simp: hasFreeShipping_def list_ex_iff)
  have "total t = 0 \<and> subtotal t = 0 \<and> tax_total t = 0"
    if "getShippingMethodTotals deps sm opts = Inr t" for t
    using that free by (auto simp: getShippingMethodTotals_def Let_def split: if_splits)
  then show ?thesis
    using getShippingMethodTotals_returns by blast
qed

theorem free_shipping_zeroes_totals_witness:
  "discounts (ex_shipping_method_options True (Some [ex_free_shipping])) = Some [ex_free_shipping]
   \<and> ex_free_shipping \<in> set [ex_free_shipping]
   \<and> rule_type (rule ex_free_shipping) = FREE_SHIPPING
   \<and> \<not> (includeTax (ex_shipping_method_options True (Some [ex_free_shipping]))
        \<and> effective_tax_lines (taxLines (ex_shipping_method_options True (Some [ex_free_shipping])))
            (tax_lines (ex_shipping_method False (Some [ex_tax_line 10]))) = [])
   \<and> total (projr (getShippingMethodTotals (ex_deps False)
        (ex_shipping_method False (Some [ex_tax_line 10]))
        (ex_shipping_method_options True (Some [ex_free_shipping])))) = 0
   \<and> subtotal (projr (getShippingMethodTotals (ex_deps False)
        (ex_shipping_method False (Some [ex_tax_line 10]))
        (ex_shipping_method_options True (Some [ex_free_shipping])))) = 0
   \<and> tax_total (projr (getShippingMethodTotals (ex_deps False)
        (ex_shipping_method False (Some [ex_tax_line 10]))
        (ex_shipping_method_options True (Some [ex_free_shipping])))) = 0"
proof -
  have h1: "discounts (ex_shipping_method_options True (Some [ex_free_shipping]))
      = Some [ex_free_shipping]"
    by (simp add: ex_shipping_method_options_def)
  have h2: "ex_free_shipping \<in> set [ex_free_shipping]" by simp
  have h3: "rule_type (rule ex_free_shipping) = FREE_SHIPPING"
    by (simp add: ex_free_shipping_def)
  have h4: "\<not> (includeTax (ex_shipping_method_options True (Some [ex_free_shipping]))
        \<and> effective_tax_lines (taxLines (ex_shipping_method_options True (Some [ex_free_shipping])))
            (tax_lines (ex_shipping_method False (Some [ex_tax_line 10]))) = [])"
    by (simp add: ex_defs eval_simps)
  note r = free_shipping_zeroes_totals [OF h1 h2 h3, of "ex_deps False"
      "ex_shipping_method False (Some [ex_tax_line 10])"]
  from r h4 obtain t where t: "getShippingMethodTotals (ex_deps False)
        (ex_shipping_method False (Some [ex_tax_line 10]))
        (ex_shipping_method_options True (Some [ex_free_shipping])) = Inr t"
    by blast
  with r have "total t = 0 \<and> subtotal t = 0 \<and> tax_total t = 0" by blast
  with t h1 h2 h3 h4 show ?thesis by simp
qed

subsection \<open>Line items without discount and without tax lines\<close>

text \<open>
  Claim C7, as amended. For a line item with zero discount allocation and zero tax lines
  to which tax-inclusive pricing does not apply (the feature is off or the item's
  \<open>includes_tax\<close> is false), the current path raises the missing-tax-lines error when
  \<open>includeTax\<close> is set and otherwise returns the record with
  \<open>total = unit_price * quantity\<close> and \<open>tax_total = 0\<close>.
\<close>

theorem untaxed_undiscounted_line_item_totals:
  assumes "allocation_discount_total (lineItemAllocation opts) item = 0"
    and "effective_tax_lines (taxLines opts) (tax_lines item) = []"
    and "\<not> (tax_inclusive_pricing deps \<and> includes_tax item)"
  shows "getLineItemTotals deps item opts =
     (if includeTax opts then Inl tax_lines_not_joined
      else Inr \<lparr>subtotal = unit_price item * quantity item,
                tax_total = 0,
                total = unit_price item * quantity item,
                original_total = unit_price item * quantity item,
                original_tax_total = 0,
                totals_tax_lines = Some [],
                totals_unit_price = unit_price item,
                totals_quantity = quantity item,
                discount_total = 0\<rparr>)"
  using assms
  by (cases "tax_inclusive_pricing deps"; cases "includes_tax item")
     (simp_all add: getLineItemTotals_def Let_def)

theorem untaxed_undiscounted_line_item_totals_witness:
  "allocation_discount_total (lineItemAllocation (ex_line_item_options False))
       (ex_item False (Some [])) = 0
   \<and> effective_tax_lines (taxLines (ex_line_item_options False))
       (tax_lines (ex_item False (Some []))) = []
   \<and> \<not> (tax_inclusive_pricing (ex_deps True) \<and> includes_tax (ex_item False (Some [])))
   \<and> getLineItemTotals (ex_deps True) (ex_item False (Some [])) (ex_line_item_options False)
     = Inr \<lparr>subtotal = 2200, tax_total = 0, total = 2200, original_total = 2200,
          original_tax_total = 0, totals_tax_lines = Some [], totals_unit_price = 1100,
          totals_quantity = 2, discount_total = 0\<rparr>"
proof -
  have h1: "allocation_discount_total (lineItemAllocation (ex_line_item_options False))
       (ex_item False (Some [])) = 0"
    by (simp add: ex_defs eval_simps)
  have h2: "effective_tax_lines (taxLines (ex_line_item_options False))
       (tax_lines (ex_item False (Some []))) = []"
    by (simp add: ex_defs eval_simps)
  have h3: "\<not> (tax_inclusive_pricing (ex_deps True) \<and> includes_tax (ex_item False (Some [])))"
    by (simp add: ex_defs)
  from untaxed_undiscounted_line_item_totals [OF h1 h2 h3]
  have "getLineItemTotals (ex_deps True) (ex_item False (Some [])) (ex_line_item_options False)
     = Inr \<lparr>subtotal = 2200, tax_total = 0, total = 2200, original_total = 2200,
          original_tax_total = 0, totals_tax_lines = Some [], totals_unit_price = 1100,
          totals_quantity = 2, discount_total = 0\<rparr>"
    by (simp add: ex_defs)
  with h1 h2 h3 show ?thesis by blast
qed

text \<open>
  The claim as stated fails for a tax-inclusive item, whose total stays at the provisional
  zero, and when \<open>includeTax\<close> is set, where no record is returned.
\<close>

theorem untaxed_undiscounted_line_item_totals_counterexample:
  "allocation_discount_total (lineItemAllocation (ex_line_item_options False))
       (ex_item True (Some [])) = 0
   \<and> effective_tax_lines (taxLines (ex_line_item_options False))
       (tax_lines (ex_item True (Some []))) = []
   \<and> getLineItemTotals (ex_deps True) (ex_item True (Some [])) (ex_line_item_options False)
     = Inr \<lparr>subtotal = 0, tax_total = 0, total = 0, original_total = 0, original_tax_total = 0,
          totals_tax_lines = Some [], totals_unit_price = 1100, totals_quantity = 2,
          discount_total = 0\<rparr>
   \<and> unit_price (ex_item True (Some [])) * quantity (ex_item True (Some [])) = 2200
   \<and> total (projr (getLineItemTotals (ex_deps True) (ex_item True (Some []))
        (ex_line_item_options False)))
      \<noteq> unit_price (ex_item True (Some [])) * quantity (ex_item True (Some []))
   \<and> getLineItemTotals (ex_deps False) (ex_item False (Some [])) (ex_line_item_options True)
     = Inl tax_lines_not_joined"
  by (simp add: getLineItemTotals_def ex_defs eval_simps)

subsection \<open>Gift cards\<close>








subsection \<open>Refunds\<close>



text \<open>
  Claim C9. For a line item whose tax-line collection is undefined, \<open>getLineItemRefund\<close>
  without a flat tax rate raises the error "Cannot compute line item refund amount, tax
  lines are missing from the line item", which differs from the missing-tax-lines error of
  the totals methods, whether \<open>includes_tax\<close> is set or not; an empty tax-line list is
  accepted and adds no tax to the line subtotal.
\<close>

theorem line_item_refund_undefined_tax_lines:
  "(tax_lines lineItem = None
      \<longrightarrow> getLineItemRefund deps lineItem ctx None = Inl refund_tax_lines_missing)
   \<and> refund_tax_lines_missing \<noteq> tax_lines_not_joined
   \<and> (tax_lines lineItem' = Some []
      \<longrightarrow> getLineItemRefund deps lineItem' ctx None
          = Inr ((unit_price lineItem'
                   - (if tax_inclusive_pricing deps \<and> includes_tax lineItem'
                      then Math_round (calculatePriceTaxAmount deps (unit_price lineItem') 0 True)
                      else 0)) * quantity lineItem'
                 - refund_discount_amount ctx lineItem' + 0))"
  by (simp add: getLineItemRefund_def Let_def refund_tax_lines_missing_def
      tax_lines_not_joined_def)

theorem line_item_refund_undefined_tax_lines_witness:
  "tax_lines (ex_small_item None) = None
   \<and> \<not> includes_tax (ex_small_item None)
   \<and> getLineItemRefund (ex_deps False) (ex_small_item None) ex_context None
       = Inl refund_tax_lines_missing
   \<and> tax_lines (ex_small_item (Some [])) = Some []
   \<and> getLineItemRefund (ex_deps False) (ex_small_item (Some [])) ex_context None = Inr 10"
proof -
  have h1: "tax_lines (ex_small_item None) = None"
    and h2: "tax_lines (ex_small_item (Some [])) = Some []"
    and h3: "\<not> includes_tax (ex_small_item None)"
    by (simp_all add: ex_small_item_def)
  note r = line_item_refund_undefined_tax_lines [of "ex_small_item None" "ex_deps False"
      ex_context "ex_small_item (Some [])"]
  from r h1 have a: "getLineItemRefund (ex_deps False) (ex_small_item None) ex_context None
       = Inl refund_tax_lines_missing"
    by blast
  from r h2 have "getLineItemRefund (ex_deps False) (ex_small_item (Some [])) ex_context None
       = Inr ((unit_price (ex_small_item (Some []))
                   - (if tax_inclusive_pricing (ex_deps False)
                           \<and> includes_tax (ex_small_item (Some []))
                      then Math_round (calculatePriceTaxAmount (ex_deps False)
                             (unit_price (ex_small_item (Some []))) 0 True)
                      else 0)) * quantity (ex_small_item (Some []))
                 - refund_discount_amount ex_context (ex_small_item (Some [])) + 0)"
    by blast
  then have b: "getLineItemRefund (ex_deps False) (ex_small_item (Some [])) ex_context None
      = Inr 10"
    by (simp add: ex_defs eval_simps)
  from h1 h2 h3 a b show ?thesis by blast
qed

subsection \<open>Rounding on the legacy paths\<close>


subsection \<open>The choice between the legacy and the current path\<close>










end
